theory Spec2Isabelle
  imports Main
begin

section \<open>Python values and failures used by \<open>mesc/overrides.py\<close>\<close>

text \<open>
  The module is Python, so a call can end in an exception. Every exception the
  module can raise is a constructor of \<open>pyerr\<close>, and every function of the module
  returns \<open>pyerr + 'a\<close> with \<open>Inl\<close> for the raised exception.
  \<open>InvalidOverride\<close> and \<open>MissingEndpoint\<close> are the two kinds of the package's own
  \<open>exceptions\<close> module; \<open>PlainException\<close> is the builtin \<open>Exception\<close> that
  \<open>env_profiles\<close> raises; \<open>JSONDecodeError\<close> is what \<open>json.loads\<close> raises.
\<close>

datatype pyerr =
    TypeError | AttributeError | NameError | ValueError | KeyError | IndexError
  | JSONDecodeError | InvalidOverride | MissingEndpoint | PlainException

text \<open>
  The objects on which the module looks up a method: \<open>None\<close>, a \<open>str\<close>, a \<open>dict\<close>
  (with its items) and a function object. A method that the object's class does not
  have raises \<open>AttributeError\<close> at the lookup.
\<close>

datatype 'i pyobj = PyNone | PyStr string | PyDict 'i | PyFunction

type_synonym environ = "string \<rightharpoonup> string"

definition of_optional :: "string option \<Rightarrow> 'i pyobj" where
  "of_optional v = (case v of None \<Rightarrow> PyNone | Some s \<Rightarrow> PyStr s)"

text \<open>\<open>s.split(sep)\<close> for a one-character separator: every occurrence splits, and the
  result is never empty (\<open>"".split(" ") == [""]\<close>).\<close>

fun split_on :: "char \<Rightarrow> string \<Rightarrow> string list" where
  "split_on sep [] = [[]]"
| "split_on sep (c # cs) =
     (if c = sep then [] # split_on sep cs
      else (case split_on sep cs of [] \<Rightarrow> [[c]] | w # ws \<Rightarrow> (c # w) # ws))"

text \<open>\<open>s.split(sep, 1)\<close>: only the first occurrence splits.\<close>

fun split_once :: "char \<Rightarrow> string \<Rightarrow> string list" where
  "split_once sep [] = [[]]"
| "split_once sep (c # cs) =
     (if c = sep then [[], cs]
      else (case split_once sep cs of [] \<Rightarrow> [[c]] | w # ws \<Rightarrow> (c # w) # ws))"

text \<open>Attribute lookups. \<open>split\<close> and \<open>startswith\<close> are methods of \<open>str\<close> only;
  \<open>items\<close> is a method of \<open>dict\<close> only; no class has a method \<open>is_decimal\<close>
  (the method of \<open>str\<close> is spelt \<open>isdecimal\<close>).\<close>

fun attr_split :: "'i pyobj \<Rightarrow> pyerr + (char \<Rightarrow> string list)" where
  "attr_split (PyStr s) = Inr (\<lambda>sep. split_on sep s)"
| "attr_split PyNone = Inl AttributeError"
| "attr_split (PyDict d) = Inl AttributeError"
| "attr_split PyFunction = Inl AttributeError"

fun attr_startswith :: "'i pyobj \<Rightarrow> pyerr + (string \<Rightarrow> bool)" where
  "attr_startswith (PyStr s) = Inr (\<lambda>p. take (length p) s = p)"
| "attr_startswith PyNone = Inl AttributeError"
| "attr_startswith (PyDict d) = Inl AttributeError"
| "attr_startswith PyFunction = Inl AttributeError"

fun attr_items :: "'i pyobj \<Rightarrow> pyerr + 'i" where
  "attr_items (PyDict d) = Inr d"
| "attr_items PyNone = Inl AttributeError"
| "attr_items (PyStr s) = Inl AttributeError"
| "attr_items PyFunction = Inl AttributeError"

fun attr_is_decimal :: "'i pyobj \<Rightarrow> pyerr + bool" where
  "attr_is_decimal PyNone = Inl AttributeError"
| "attr_is_decimal (PyStr s) = Inl AttributeError"
| "attr_is_decimal (PyDict d) = Inl AttributeError"
| "attr_is_decimal PyFunction = Inl AttributeError"

text \<open>Reading a name that is bound neither in the function, nor in the module, nor
  in the builtins raises \<open>NameError\<close>. The module reads four such names:
  \<open>string\<close>, \<open>name\<close>, \<open>chain_id\<close> (in \<open>env_network_defaults\<close>) and \<open>_is_url\<close>.\<close>

definition unbound_name :: "string \<Rightarrow> pyerr + 'a" where
  "unbound_name n = Inl NameError"

text \<open>Tuple unpacking \<open>a, b = xs\<close> raises \<open>ValueError\<close> unless \<open>xs\<close> has two elements.\<close>

fun unpack2 :: "'a list \<Rightarrow> pyerr + ('a \<times> 'a)" where
  "unpack2 [a, b] = Inr (a, b)"
| "unpack2 xs = Inl ValueError"

text \<open>
  A call site passes positional and keyword arguments; the callee binds them to its
  parameters, and a call that does not fit the signature raises \<open>TypeError\<close> before the
  body runs. \<open>bind0\<close> is the binding of a function without parameters, \<open>bind1 p\<close>
  of a function with the single parameter \<open>p\<close> and no default.
\<close>

datatype 'a args = Args "'a list" "(string \<times> 'a) list"

fun bind0 :: "'a args \<Rightarrow> pyerr + unit" where
  "bind0 (Args [] []) = Inr ()"
| "bind0 (Args ps ks) = Inl TypeError"

fun bind1 :: "string \<Rightarrow> 'a args \<Rightarrow> pyerr + 'a" where
  "bind1 p (Args [v] []) = Inr v"
| "bind1 p (Args [] [(k, v)]) = (if k = p then Inr v else Inl TypeError)"
| "bind1 p (Args ps ks) = Inl TypeError"

section \<open>The data model\<close>

text \<open>
  \<open>mesc/types.py\<close> is not part of the sources at hand; the records follow the keys the
  module reads and writes. A chain id is an \<open>int\<close> where the module converts it
  (\<open>int(default_endpoint)\<close>) and a \<open>str\<close> where it comes from a split token, and a
  Python dict tells the two apart, so keys of \<open>network_defaults\<close> are of either kind.
  \<open>'j\<close> is the type of arbitrary JSON values held in metadata.
\<close>

datatype chain_key = KInt int | KStr string

record 'j endpoint =
  name :: string
  url :: string
  chain_id :: "chain_key option"
  endpoint_metadata :: "string \<rightharpoonup> 'j"

record profile =
  p_default_endpoint :: "string option"
  p_network_defaults :: "(chain_key \<rightharpoonup> string) option"

text \<open>The value \<open>env_default_endpoint\<close> hands back: an endpoint name, or (in its last
  branch, which returns instead of raising) an exception object.\<close>

datatype default_value = EndpointName string | ExceptionObject pyerr

record 'j rpc_config =
  mesc_version :: string
  default_endpoint :: "default_value option"
  network_defaults :: "chain_key \<rightharpoonup> string"
  network_names :: "string \<rightharpoonup> int"
  endpoints :: "string \<rightharpoonup> 'j endpoint"
  profiles :: "string \<rightharpoonup> profile"
  global_metadata :: "string \<rightharpoonup> 'j"

text \<open>
  What the module takes from outside: \<open>json.loads\<close> at the three types at which its
  result is used (the return annotations \<open>Mapping[str, int]\<close>, \<open>Mapping[str, Any]\<close> and
  \<open>Mapping[str, Mapping[str, Any]]\<close>), the builtin \<open>int\<close> on a string, and
  \<open>directory.network_name_to_chain_id\<close>. They are parameters: every theorem below
  holds whatever they compute.
\<close>

record 'j library =
  json_loads_names :: "string \<Rightarrow> pyerr + (string \<rightharpoonup> int)"
  json_loads_metadata :: "string \<Rightarrow> pyerr + (string \<rightharpoonup> 'j)"
  json_loads_endpoint_metadata :: "string \<Rightarrow> pyerr + (string \<rightharpoonup> (string \<rightharpoonup> 'j))"
  int_of_str :: "string \<Rightarrow> pyerr + int"
  network_name_to_chain_id :: "string option \<Rightarrow> pyerr + int option"

section \<open>The parsers of the environment variables\<close>

subsection \<open>\<open>_chain_id_to_endpoint_name\<close> and \<open>env_default_endpoint\<close>\<close>

definition chain_id_to_endpoint_name :: "int \<Rightarrow> 'j rpc_config \<Rightarrow> pyerr + string" where
  "chain_id_to_endpoint_name cid config =
     (case network_defaults config (KInt cid) of
        None \<Rightarrow> Inl MissingEndpoint
      | Some endpoint \<Rightarrow> Inr endpoint)"

text \<open>\<open>key in d\<close> for a dict with \<open>str\<close> keys: \<open>None\<close> is hashable and is no key.\<close>

definition contains :: "(string \<rightharpoonup> 'v) \<Rightarrow> string option \<Rightarrow> bool" where
  "contains d key = (case key of None \<Rightarrow> False | Some k \<Rightarrow> d k \<noteq> None)"

definition env_default_endpoint ::
  "'j library \<Rightarrow> environ \<Rightarrow> 'j rpc_config args \<Rightarrow> pyerr + default_value option" where
  "env_default_endpoint L env args =
     (case bind1 ''config'' args of Inl e \<Rightarrow> Inl e
      | Inr config \<Rightarrow>
     (let de = env ''MESC_DEFAULT_ENDPOINT'' in
      if contains (endpoints config) de then Inr (map_option EndpointName de)
      else (case attr_is_decimal (of_optional de :: unit pyobj) of Inl e \<Rightarrow> Inl e
      | Inr decimal \<Rightarrow>
        if decimal then
          (case de of None \<Rightarrow> Inl TypeError
           | Some s \<Rightarrow>
             (case int_of_str L s of Inl e \<Rightarrow> Inl e
              | Inr cid \<Rightarrow> map_sum id (Some \<circ> EndpointName) (chain_id_to_endpoint_name cid config)))
        else if contains (network_names config) de then
          (case de of None \<Rightarrow> Inl KeyError
           | Some k \<Rightarrow>
             (case network_names config k of None \<Rightarrow> Inl KeyError
              | Some cid \<Rightarrow>
                  map_sum id (Some \<circ> EndpointName) (chain_id_to_endpoint_name cid config)))
        else
          (case network_name_to_chain_id L de of Inl e \<Rightarrow> Inl e
           | Inr (Some cid) \<Rightarrow>
               map_sum id (Some \<circ> EndpointName) (chain_id_to_endpoint_name cid config)
           | Inr None \<Rightarrow> Inr (Some (ExceptionObject InvalidOverride))))))"

subsection \<open>\<open>env_network_defaults\<close>\<close>

text \<open>
  The dict comprehension \<open>{name: int(chain_id) for network, endpoint in items}\<close> unpacks
  the first item and then evaluates its key expression \<open>name\<close>, which is bound nowhere,
  so it builds no entry: it ends with the \<open>ValueError\<close> of the unpacking or with
  \<open>NameError\<close>, and yields the empty dict only for no item at all.
\<close>

fun network_defaults_comprehension :: "string list list \<Rightarrow> pyerr + ('k \<times> 'v) list" where
  "network_defaults_comprehension [] = Inr []"
| "network_defaults_comprehension (item # rest) =
     (case unpack2 item of Inl e \<Rightarrow> Inl e
      | Inr (network, endpoint) \<Rightarrow> unbound_name ''name'')"

definition env_network_defaults :: "environ \<Rightarrow> bool args \<Rightarrow> pyerr + ('k \<times> 'v) list" where
  "env_network_defaults env args =
     (case bind1 ''replace_ad_hoc'' args of Inl e \<Rightarrow> Inl e
      | Inr replace_ad_hoc \<Rightarrow>
     (case attr_split (of_optional (env ''MESC_NETWORK_DEFAULTS'') :: unit pyobj) of
        Inl e \<Rightarrow> Inl e
      | Inr split \<Rightarrow>
          network_defaults_comprehension (map (split_once CHR ''='') (split CHR '' ''))))"

subsection \<open>\<open>env_network_names\<close>\<close>

fun network_names_comprehension ::
  "'j library \<Rightarrow> string list list \<Rightarrow> (string \<rightharpoonup> int) \<Rightarrow> pyerr + (string \<rightharpoonup> int)" where
  "network_names_comprehension L [] d = Inr d"
| "network_names_comprehension L (pair # rest) d =
     (case unpack2 pair of Inl e \<Rightarrow> Inl e
      | Inr (key, val) \<Rightarrow>
         (case int_of_str L val of Inl e \<Rightarrow> Inl e
          | Inr n \<Rightarrow> network_names_comprehension L rest (d(key \<mapsto> n))))"

definition env_network_names ::
  "'j library \<Rightarrow> environ \<Rightarrow> unit args \<Rightarrow> pyerr + (string \<rightharpoonup> int)" where
  "env_network_names L env args =
     (case bind0 args of Inl e \<Rightarrow> Inl e
      | Inr _ \<Rightarrow>
     (let nn = env ''MESC_NETWORK_NAMES'' in
      case attr_startswith (of_optional nn :: unit pyobj) of Inl e \<Rightarrow> Inl e
      | Inr startswith \<Rightarrow>
          if startswith ''{'' then
            (case nn of None \<Rightarrow> Inl TypeError | Some s \<Rightarrow> json_loads_names L s)
          else
            (case attr_split (of_optional nn :: unit pyobj) of Inl e \<Rightarrow> Inl e
             | Inr split \<Rightarrow>
                 network_names_comprehension L
                   (map (split_on CHR ''='') (split CHR '' '')) Map.empty)))"

subsection \<open>\<open>env_profiles\<close>\<close>

text \<open>A dict built by the module keeps its insertion order, which the loops over
  \<open>.items()\<close> follow: such a dict is an association list with distinct keys.\<close>

fun setdefault :: "'k \<Rightarrow> 'v \<Rightarrow> ('k \<times> 'v) list \<Rightarrow> ('k \<times> 'v) list" where
  "setdefault k v [] = [(k, v)]"
| "setdefault k v ((k', v') # d) =
     (if k' = k then (k', v') # d else (k', v') # setdefault k v d)"

fun setitem :: "'k \<Rightarrow> 'v \<Rightarrow> ('k \<times> 'v) list \<Rightarrow> ('k \<times> 'v) list" where
  "setitem k v [] = [(k, v)]"
| "setitem k v ((k', v') # d) =
     (if k' = k then (k, v) # d else (k', v') # setitem k v d)"

definition getitem :: "('k \<times> 'v) list \<Rightarrow> 'k \<Rightarrow> pyerr + 'v" where
  "getitem d k = (case map_of d k of None \<Rightarrow> Inl KeyError | Some v \<Rightarrow> Inr v)"

text \<open>One pass through the body of the loop of \<open>env_profiles\<close>.\<close>

definition profiles_item ::
  "string \<Rightarrow> (string \<times> profile) list \<Rightarrow> pyerr + (string \<times> profile) list" where
  "profiles_item item ps =
     (case unpack2 (split_on CHR ''='' item) of Inl e \<Rightarrow> Inl e
      | Inr (key, val) \<Rightarrow>
     (case split_on CHR ''.'' key of [] \<Rightarrow> Inl IndexError
      | k0 # ks \<Rightarrow>
     (let subkeys = k0 # ks;
          ps1 = setdefault k0 \<lparr>p_default_endpoint = None, p_network_defaults = None\<rparr> ps
      in
        if length subkeys = 2 \<and> subkeys ! 1 = ''default_endpoint'' then
          (case getitem ps1 k0 of Inl e \<Rightarrow> Inl e
           | Inr p \<Rightarrow> Inr (setitem k0 (p\<lparr>p_default_endpoint := Some val\<rparr>) ps1))
        else if length subkeys = 3 \<and> subkeys ! 1 = ''network_defaults'' then
          (case getitem ps1 k0 of Inl e \<Rightarrow> Inl e
           | Inr p \<Rightarrow>
             (case p_network_defaults p of None \<Rightarrow> Inl TypeError
              | Some nd \<Rightarrow>
                  Inr (setitem k0
                         (p\<lparr>p_network_defaults := Some (nd(KStr (subkeys ! 2) \<mapsto> val))\<rparr>)
                         ps1)))
        else Inl PlainException)))"

fun profiles_loop ::
  "string list \<Rightarrow> (string \<times> profile) list \<Rightarrow> pyerr + (string \<times> profile) list" where
  "profiles_loop [] ps = Inr ps"
| "profiles_loop (item # rest) ps =
     (case profiles_item item ps of Inl e \<Rightarrow> Inl e
      | Inr ps' \<Rightarrow> profiles_loop rest ps')"

definition env_profiles :: "environ \<Rightarrow> bool args \<Rightarrow> pyerr + (string \<times> profile) list" where
  "env_profiles env args =
     (case bind0 args of Inl e \<Rightarrow> Inl e
      | Inr _ \<Rightarrow>
     (case env ''MESC_PROFILES'' of None \<Rightarrow> Inr []
      | Some raw_profiles \<Rightarrow>
        (let ps = [] in
         case attr_split (PyDict ps) of Inl e \<Rightarrow> Inl e
         | Inr split \<Rightarrow> profiles_loop (split CHR '' '') ps)))"

subsection \<open>\<open>_collect_ad_hoc_endpoints\<close> and \<open>env_endpoints\<close>\<close>

text \<open>The last loop of \<open>_collect_ad_hoc_endpoints\<close> calls \<open>_is_url\<close>, a name bound
  nowhere, on the first raw endpoint; its body is \<open>pass\<close>, and the function
  returns \<open>None\<close>. The loop over \<open>profiles.items()\<close> before it only reads the method
  \<open>profile.get\<close> of each profile, which every dict has: it changes and raises
  nothing.\<close>

fun is_url_loop :: "string option list \<Rightarrow> pyerr + unit" where
  "is_url_loop [] = Inr ()"
| "is_url_loop (endpoint # rest) =
     (case unbound_name ''_is_url'' of Inl e \<Rightarrow> Inl e
      | Inr (is_url :: string option \<Rightarrow> bool) \<Rightarrow> is_url_loop rest)"

definition collect_ad_hoc_endpoints ::
  "environ \<Rightarrow> (string \<rightharpoonup> 'j endpoint) args \<Rightarrow> pyerr + unit" where
  "collect_ad_hoc_endpoints env args =
     (case bind1 ''endpoints'' args of Inl e \<Rightarrow> Inl e
      | Inr eps \<Rightarrow>
     (let raw0 = [env ''MESC_DEFAULT_ENDPOINT''] in
      case env_network_defaults env (Args [] [(''replace'', False)]) of Inl e \<Rightarrow> Inl e
      | Inr (nd :: (chain_key \<times> string) list) \<Rightarrow>
     (let raw1 = raw0 @ map (Some \<circ> snd) nd in
      case env_profiles env (Args [] [(''replace'', False)]) of Inl e \<Rightarrow> Inl e
      | Inr ps \<Rightarrow> is_url_loop raw1)))"

text \<open>
  \<open>re.match\<close> on the pattern
  \<^verbatim>\<open>^(?P<name>[A-Za-z_-]+)(:(?P<chain_id>\w+))?=(?P<url>.*)\<close>:
  the groups \<open>name\<close>, \<open>chain_id\<close> (or \<open>None\<close>) and \<open>url\<close>. Neither \<open>:\<close> nor \<open>=\<close> is
  in a character class of the pattern, so the greedy match is the only one; \<open>.\<close> stops
  at a newline. \<open>\w\<close> is taken on ASCII.
\<close>

definition name_char :: "char \<Rightarrow> bool" where
  "name_char c =
     (c \<in> set ''ABCDEFGHIJKLMNOPQRSTUVWXYZabcdefghijklmnopqrstuvwxyz_-'')"

definition word_char :: "char \<Rightarrow> bool" where
  "word_char c =
     (c \<in> set ''ABCDEFGHIJKLMNOPQRSTUVWXYZabcdefghijklmnopqrstuvwxyz0123456789_'')"

definition re_match :: "string \<Rightarrow> (string \<times> string option \<times> string) option" where
  "re_match s =
     (let nm = takeWhile name_char s; r1 = dropWhile name_char s in
      if nm = [] then None
      else (case r1 of
              [] \<Rightarrow> None
            | c # r2 \<Rightarrow>
                if c = CHR ''='' then Some (nm, None, takeWhile (\<lambda>x. x \<noteq> CHR 0x0A) r2)
                else if c = CHR '':'' then
                  (let cid = takeWhile word_char r2; r3 = dropWhile word_char r2 in
                   if cid = [] then None
                   else (case r3 of
                           [] \<Rightarrow> None
                         | d # u \<Rightarrow>
                             if d = CHR ''=''
                             then Some (nm, Some cid, takeWhile (\<lambda>x. x \<noteq> CHR 0x0A) u)
                             else None))
                else None))"

text \<open>The loop of \<open>env_endpoints\<close>: its first statement passes \<open>string\<close>, a name bound
  nowhere (the loop variable is \<open>item\<close>), to \<open>re.match\<close>.\<close>

fun endpoints_loop ::
  "string list \<Rightarrow> (string \<rightharpoonup> 'j endpoint) \<Rightarrow> pyerr + (string \<rightharpoonup> 'j endpoint)" where
  "endpoints_loop [] eps = Inr eps"
| "endpoints_loop (item # rest) eps =
     (case unbound_name ''string'' of Inl e \<Rightarrow> Inl e
      | Inr s \<Rightarrow>
        (case re_match s of
           Some (nm, cid, u) \<Rightarrow>
             endpoints_loop rest
               (eps(nm \<mapsto> \<lparr>name = nm, url = u, chain_id = map_option KStr cid,
                              endpoint_metadata = Map.empty\<rparr>))
         | None \<Rightarrow> Inl InvalidOverride))"

definition env_endpoints :: "environ \<Rightarrow> 'a args \<Rightarrow> pyerr + (string \<rightharpoonup> 'j endpoint)" where
  "env_endpoints env args =
     (case bind0 args of Inl e \<Rightarrow> Inl e
      | Inr _ \<Rightarrow>
     (let eps = Map.empty; raw_endpoints = env ''MESC_ENDPOINTS'' in
      case attr_split (PyDict eps) of Inl e \<Rightarrow> Inl e
      | Inr split \<Rightarrow>
     (case endpoints_loop (split CHR '' '') eps of Inl e \<Rightarrow> Inl e
      | Inr eps' \<Rightarrow>
     (case collect_ad_hoc_endpoints env (Args [] [] :: (string \<rightharpoonup> 'j endpoint) args) of
        Inl e \<Rightarrow> Inl e
      | Inr ad_hoc_endpoints \<Rightarrow> Inr eps'))))"

subsection \<open>\<open>env_global_metadata\<close> and \<open>env_endpoint_metadata\<close>\<close>

definition env_global_metadata ::
  "'j library \<Rightarrow> environ \<Rightarrow> unit args \<Rightarrow> pyerr + (string \<rightharpoonup> 'j)" where
  "env_global_metadata L env args =
     (case bind0 args of Inl e \<Rightarrow> Inl e
      | Inr _ \<Rightarrow>
     (case env ''MESC_GLOBAL_METADATA'' of
        Some raw \<Rightarrow> json_loads_metadata L raw
      | None \<Rightarrow> Inr Map.empty))"

definition env_endpoint_metadata ::
  "'j library \<Rightarrow> environ \<Rightarrow> unit args \<Rightarrow> pyerr + (string \<rightharpoonup> (string \<rightharpoonup> 'j))" where
  "env_endpoint_metadata L env args =
     (case bind0 args of Inl e \<Rightarrow> Inl e
      | Inr _ \<Rightarrow>
     (case env ''MESC_ENDPOINT_METADATA'' of
        Some raw \<Rightarrow> json_loads_endpoint_metadata L raw
      | None \<Rightarrow> Inr Map.empty))"

section \<open>\<open>apply_env_overrides\<close>\<close>

text \<open>
  The caller and the function share configuration objects by reference, so the objects
  live in a store: the list of all configuration objects allocated so far, an object's
  address being its index. \<open>copy.deepcopy\<close> allocates a new object with the same
  contents; a dict literal allocates a new object too. An in-place update
  (\<open>config[...].update(...)\<close>, an item assignment) rewrites the object at the address the
  variable \<open>config\<close> holds. The function returns the address of the object it worked on,
  or the exception it raised, together with the store it leaves behind.
\<close>

type_synonym addr = nat
type_synonym 'j store = "'j rpc_config list"

definition alloc :: "'j rpc_config \<Rightarrow> 'j store \<Rightarrow> addr \<times> 'j store" where
  "alloc c h = (length h, h @ [c])"

definition deepcopy :: "addr \<Rightarrow> 'j store \<Rightarrow> addr \<times> 'j store" where
  "deepcopy a h = alloc (h ! a) h"

definition mutate :: "addr \<Rightarrow> ('j rpc_config \<Rightarrow> 'j rpc_config) \<Rightarrow> 'j store \<Rightarrow> 'j store" where
  "mutate a f h = h[a := f (h ! a)]"

definition empty_config :: "'j rpc_config" where
  "empty_config =
     \<lparr>mesc_version = ''1.0'', default_endpoint = None, network_defaults = Map.empty,
      network_names = Map.empty, endpoints = Map.empty, profiles = Map.empty,
      global_metadata = Map.empty\<rparr>"

text \<open>The loop over the per-endpoint metadata:
  \<open>config["endpoints"][endpoint]["endpoint_metadata"].update(metadata)\<close>.\<close>

fun endpoint_metadata_loop ::
  "(string \<times> (string \<rightharpoonup> 'j)) list \<Rightarrow> addr \<Rightarrow> 'j store \<Rightarrow> (pyerr + unit) \<times> 'j store" where
  "endpoint_metadata_loop [] config h = (Inr (), h)"
| "endpoint_metadata_loop ((endpoint, metadata) # rest) config h =
     (case endpoints (h ! config) endpoint of
        None \<Rightarrow> (Inl KeyError, h)
      | Some ep \<Rightarrow>
          endpoint_metadata_loop rest config
            (mutate config
               (\<lambda>c. c\<lparr>endpoints := (endpoints c)
                        (endpoint \<mapsto> ep\<lparr>endpoint_metadata := endpoint_metadata ep ++ metadata\<rparr>)\<rparr>)
               h))"

text \<open>
  The body, statement by statement. Line 26 calls \<open>env_endpoints(config)\<close>, line 28
  \<open>env_network_defaults()\<close>, line 30 \<open>env_default_endpoint()\<close>, and line 36 reads
  \<open>.items\<close> of the function object \<open>env_endpoint_metadata\<close> (it does not call it).
\<close>

definition apply_env_overrides ::
  "'j library \<Rightarrow> environ \<Rightarrow> addr option \<Rightarrow> 'j store \<Rightarrow> (pyerr + addr) \<times> 'j store" where
  "apply_env_overrides L env config0 h0 =
     (let (config, h1) =
            (case config0 of Some a \<Rightarrow> deepcopy a h0 | None \<Rightarrow> alloc empty_config h0)
      in
      case env_endpoints env (Args [config] []) of Inl e \<Rightarrow> (Inl e, h1)
      | Inr eps \<Rightarrow>
     (let h2 = mutate config (\<lambda>c. c\<lparr>endpoints := endpoints c ++ eps\<rparr>) h1 in
      case env_network_names L env (Args [] []) of Inl e \<Rightarrow> (Inl e, h2)
      | Inr names \<Rightarrow>
     (let h3 = mutate config (\<lambda>c. c\<lparr>network_names := network_names c ++ names\<rparr>) h2 in
      case env_network_defaults env (Args [] []) of Inl e \<Rightarrow> (Inl e, h3)
      | Inr nd \<Rightarrow>
     (let h4 = mutate config (\<lambda>c. c\<lparr>network_defaults := network_defaults c ++ map_of nd\<rparr>) h3 in
      case env_profiles env (Args [] []) of Inl e \<Rightarrow> (Inl e, h4)
      | Inr ps \<Rightarrow>
     (let h5 = mutate config (\<lambda>c. c\<lparr>profiles := profiles c ++ map_of ps\<rparr>) h4 in
      case env_default_endpoint L env (Args [] []) of Inl e \<Rightarrow> (Inl e, h5)
      | Inr de \<Rightarrow>
     (let h6 = (case de of None \<Rightarrow> h5
                | Some v \<Rightarrow> mutate config (\<lambda>c. c\<lparr>default_endpoint := Some v\<rparr>) h5) in
      case env_global_metadata L env (Args [] []) of Inl e \<Rightarrow> (Inl e, h6)
      | Inr gm \<Rightarrow>
     (let h7 = mutate config (\<lambda>c. c\<lparr>global_metadata := global_metadata c ++ gm\<rparr>) h6 in
      case attr_items PyFunction of Inl e \<Rightarrow> (Inl e, h7)
      | Inr items \<Rightarrow>
     (case endpoint_metadata_loop items config h7 of
        (Inl e, h8) \<Rightarrow> (Inl e, h8)
      | (Inr _, h8) \<Rightarrow> (Inr config, h8)))))))))"

section \<open>Concrete inputs\<close>

text \<open>A base configuration with one endpoint \<open>mainnet\<close>, the default of chain 1 under
  both spellings of the key.\<close>

definition mainnet_endpoint :: "'j endpoint" where
  "mainnet_endpoint =
     \<lparr>name = ''mainnet'', url = ''https://eth.example/rpc'', chain_id = Some (KInt 1),
      endpoint_metadata = Map.empty\<rparr>"

definition mainnet_config :: "'j rpc_config" where
  "mainnet_config =
     empty_config
       \<lparr>network_defaults := [KInt 1 \<mapsto> ''mainnet'', KStr ''1'' \<mapsto> ''mainnet''],
        endpoints := [''mainnet'' \<mapsto> mainnet_endpoint]\<rparr>"

text \<open>A library whose JSON reader knows the empty object only, whose \<open>int\<close> reads
  the literals \<open>1\<close> and \<open>5\<close>, and whose network directory is empty.\<close>

definition small_library :: "unit library" where
  "small_library =
     \<lparr>json_loads_names = (\<lambda>s. if s = ''{}'' then Inr Map.empty else Inl JSONDecodeError),
      json_loads_metadata = (\<lambda>s. if s = ''{}'' then Inr Map.empty else Inl JSONDecodeError),
      json_loads_endpoint_metadata =
        (\<lambda>s. if s = ''{}'' then Inr Map.empty else Inl JSONDecodeError),
      int_of_str = (\<lambda>s. if s = ''1'' then Inr 1 else if s = ''5'' then Inr 5 else Inl ValueError),
      network_name_to_chain_id = (\<lambda>s. Inr None)\<rparr>"

definition env_endpoints_only :: environ where
  "env_endpoints_only = [''MESC_ENDPOINTS'' \<mapsto> ''mainnet:1=https://eth.example/rpc'']"

definition env_ad_hoc :: environ where
  "env_ad_hoc = [''MESC_NETWORK_DEFAULTS'' \<mapsto> ''5=https://example.com/rpc'']"

definition env_chain_one :: environ where
  "env_chain_one =
     [''MESC_DEFAULT_ENDPOINT'' \<mapsto> ''1'', ''MESC_NETWORK_DEFAULTS'' \<mapsto> ''1=mainnet'']"

definition env_unknown_alias :: environ where
  "env_unknown_alias = [''MESC_DEFAULT_ENDPOINT'' \<mapsto> ''nonexistent_alias'']"

definition env_chain_five :: environ where
  "env_chain_five = [''MESC_DEFAULT_ENDPOINT'' \<mapsto> ''5'']"

definition env_profile_dev :: environ where
  "env_profile_dev =
     [''MESC_PROFILES'' \<mapsto> ''dev.default_endpoint=mainnet dev.network_defaults.1=mainnet'']"

section \<open>What the parsers do\<close>

lemma split_on_not_empty: "split_on sep s \<noteq> []"
  by (induction s) (auto split: list.splits)

lemma env_endpoints_one_argument: "env_endpoints env (Args [x] []) = Inl TypeError"
  by (simp add: env_endpoints_def)

lemma apply_env_overrides_result:
  "apply_env_overrides L env config h =
     (Inl TypeError,
      snd (case config of Some a \<Rightarrow> deepcopy a h | None \<Rightarrow> alloc empty_config h))"
  by (simp add: apply_env_overrides_def env_endpoints_one_argument
      split: prod.splits option.splits)

lemma env_default_endpoint_no_endpoint:
  "env_default_endpoint L env (Args [config] []) =
     (if contains (endpoints config) (env ''MESC_DEFAULT_ENDPOINT'')
      then Inr (map_option EndpointName (env ''MESC_DEFAULT_ENDPOINT''))
      else Inl AttributeError)"
  by (cases "env ''MESC_DEFAULT_ENDPOINT''")
    (simp_all add: env_default_endpoint_def of_optional_def)

lemma chain_id_to_endpoint_name_five:
  "chain_id_to_endpoint_name 5 mainnet_config = Inl MissingEndpoint"
  by (simp add: chain_id_to_endpoint_name_def mainnet_config_def)

lemma chain_id_to_endpoint_name_one:
  "chain_id_to_endpoint_name 1 mainnet_config = Inr ''mainnet''"
  by (simp add: chain_id_to_endpoint_name_def mainnet_config_def)

lemma env_network_names_empty_object:
  "env_network_names L [''MESC_NETWORK_NAMES'' \<mapsto> ''{}''] (Args [] []) = json_loads_names L ''{}''"
  by (simp add: env_network_names_def of_optional_def)

lemma env_profiles_unset: "env_profiles Map.empty (Args [] []) = Inr []"
  by (simp add: env_profiles_def)

lemma env_global_metadata_unset: "env_global_metadata L Map.empty (Args [] []) = Inr Map.empty"
  by (simp add: env_global_metadata_def)

lemma env_endpoint_metadata_unset:
  "env_endpoint_metadata L Map.empty (Args [] []) = Inr Map.empty"
  by (simp add: env_endpoint_metadata_def)

lemma env_network_defaults_unset:
  "env_network_defaults Map.empty (Args [replace_ad_hoc] []) = Inl AttributeError"
  by (simp add: env_network_defaults_def of_optional_def)

lemma collect_ad_hoc_endpoints_raises:
  "collect_ad_hoc_endpoints env (Args [eps] []) = Inl TypeError"
  by (simp add: collect_ad_hoc_endpoints_def env_network_defaults_def)

section \<open>The claims\<close>

text \<open>
  C1. \<open>apply_env_overrides\<close> is to merge every map derived from the environment into the
  map of the configuration, by shallow union. The code does not get that far: line 26
  calls \<open>env_endpoints(config)\<close>, \<open>env_endpoints\<close> takes no parameter, and the call raises
  \<open>TypeError\<close> for every configuration and every environment, before any map is merged.
\<close>

theorem apply_env_overrides_raises_TypeError:
  "fst (apply_env_overrides L env config h) = Inl TypeError"
  by (simp add: apply_env_overrides_result)

text \<open>
  C2. For a configuration argument that is not \<open>None\<close>, the object the caller passes is
  the same after the call as before it; indeed every object that existed before the
  call is: the function writes only to the copy it allocates.
\<close>

theorem apply_env_overrides_keeps_argument:
  "a < length h \<Longrightarrow>
     snd (apply_env_overrides L env (Some a) h) ! a = h ! a \<and>
     take (length h) (snd (apply_env_overrides L env (Some a) h)) = h"
  by (simp add: apply_env_overrides_result deepcopy_def alloc_def nth_append)

theorem apply_env_overrides_keeps_argument_witness:
  "(0::nat) < length [mainnet_config :: unit rpc_config] \<and>
   snd (apply_env_overrides small_library env_endpoints_only (Some 0) [mainnet_config]) ! 0
     = mainnet_config \<and>
   take 1 (snd (apply_env_overrides small_library env_endpoints_only (Some 0) [mainnet_config]))
     = [mainnet_config]"
  using apply_env_overrides_keeps_argument
    [of 0 "[mainnet_config]" small_library env_endpoints_only]
  by simp

text \<open>
  C3. With \<open>MESC_NETWORK_DEFAULTS="5=https://example.com/rpc"\<close> an ad hoc endpoint is to
  be synthesized and every referenced endpoint name is to be a key of \<open>endpoints\<close> in
  the returned configuration. On the code, starting from no base configuration, the
  call raises \<open>TypeError\<close> and leaves behind the empty configuration it allocated:
  nothing is returned and no endpoint is synthesized.
\<close>

theorem apply_env_overrides_ad_hoc_url:
  "apply_env_overrides L env_ad_hoc None [] = (Inl TypeError, [empty_config])"
  by (simp add: apply_env_overrides_result alloc_def)

text \<open>
  C4. Applying the overrides to the result of a first application is to give that result
  again. On the code a first application has no result: for no configuration, environment
  and store does \<open>apply_env_overrides\<close> return an object.
\<close>

theorem apply_env_overrides_never_returns:
  "fst (apply_env_overrides L env config h) \<noteq> Inr r"
  by (simp add: apply_env_overrides_result)

text \<open>
  C5. With \<open>MESC_DEFAULT_ENDPOINT=1\<close>, \<open>MESC_NETWORK_DEFAULTS="1=mainnet"\<close> and an endpoint
  \<open>mainnet\<close>, \<open>env_default_endpoint\<close> is to return \<open>"mainnet"\<close>. On the code, \<open>"1"\<close> is
  no endpoint name, the next test calls \<open>default_endpoint.is_decimal()\<close>, and the call
  raises \<open>AttributeError\<close>.
\<close>

theorem env_default_endpoint_chain_one:
  "env_default_endpoint L env_chain_one (Args [mainnet_config] []) = Inl AttributeError"
  by (simp add: env_default_endpoint_no_endpoint env_chain_one_def mainnet_config_def
      contains_def empty_config_def)

text \<open>
  C6. A value of \<open>MESC_DEFAULT_ENDPOINT\<close> that is no endpoint name, no decimal literal, no
  network name and no known alias is to fail with \<open>InvalidOverride\<close>. On the code,
  \<open>nonexistent_alias\<close> against the empty configuration raises \<open>AttributeError\<close>, which is
  another exception.
\<close>

theorem env_default_endpoint_unknown_alias:
  "env_default_endpoint L env_unknown_alias (Args [empty_config] []) = Inl AttributeError \<and>
   env_default_endpoint L env_unknown_alias (Args [empty_config] []) \<noteq> Inl InvalidOverride"
  by (simp add: env_default_endpoint_no_endpoint env_unknown_alias_def contains_def
      empty_config_def)

text \<open>
  C7. A value of \<open>MESC_DEFAULT_ENDPOINT\<close> that resolves to a chain id without a default is
  to fail with \<open>MissingEndpoint\<close>. On the code, the chain id \<open>5\<close> against a configuration
  whose only default is that of chain 1 raises \<open>AttributeError\<close>, although the lookup
  \<open>_chain_id_to_endpoint_name\<close> itself, were it reached, raises \<open>MissingEndpoint\<close> there.
\<close>

theorem env_default_endpoint_chain_five:
  "env_default_endpoint L env_chain_five (Args [mainnet_config] []) = Inl AttributeError \<and>
   chain_id_to_endpoint_name 5 (mainnet_config :: 'j rpc_config) = Inl MissingEndpoint"
  by (simp add: env_default_endpoint_no_endpoint env_chain_five_def mainnet_config_def
      contains_def empty_config_def chain_id_to_endpoint_name_def)

text \<open>
  C8. \<open>env_endpoints\<close> is to return the endpoints of \<open>MESC_ENDPOINTS\<close>, to fail with
  \<open>InvalidOverride\<close> on a malformed token and to return the empty mapping when the
  variable is unset. On the code it raises \<open>AttributeError\<close> whatever the environment:
  the loop splits the dict \<open>endpoints\<close>, not the string \<open>raw_endpoints\<close>.
\<close>

theorem env_endpoints_raises_AttributeError:
  "env_endpoints env (Args [] [] :: unit args) = Inl AttributeError"
  by (simp add: env_endpoints_def)

text \<open>
  C9. With \<open>MESC_PROFILES="dev.default_endpoint=mainnet dev.network_defaults.1=mainnet"\<close>,
  \<open>env_profiles\<close> is to return the one profile \<open>dev\<close>. On the code it raises
  \<open>AttributeError\<close>: the loop splits the dict \<open>profiles\<close>, not the string \<open>raw_profiles\<close>.
\<close>

theorem env_profiles_dev_raises:
  "env_profiles env_profile_dev (Args [] []) = Inl AttributeError"
  by (simp add: env_profiles_def env_profile_dev_def)

text \<open>
  C10. \<open>env_network_names\<close> is to return the empty mapping when \<open>MESC_NETWORK_NAMES\<close> is
  absent, as every parser is to contribute nothing for an absent variable. On the code,
  with the variable absent, \<open>network_names\<close> is \<open>None\<close> and \<open>network_names.startswith\<close>
  raises \<open>AttributeError\<close>.
\<close>

theorem env_network_names_unset_raises:
  "env_network_names L Map.empty (Args [] []) = Inl AttributeError"
  by (simp add: env_network_names_def of_optional_def)

end
